theory Spec2Isabelle
  imports Complex_Main
begin

section \<open>JavaScript numbers\<close>

text \<open>
  Every quantity of the climate model is a JavaScript Number. The special values that the
  code can produce and propagate (\<open>NaN\<close>, \<open>+Infinity\<close>, \<open>-Infinity\<close>) are constructors of
  their own, with the IEEE-754 rules for them written out in every operation. A finite
  Number is carried as the real it denotes: finite arithmetic is exact here, so rounding to
  a 64-bit double, overflow of a finite result and the sign of zero are not represented
  (a zero divisor counts as \<open>+0\<close>; the source divides by the positive literals 4 and 50 and
  by the constructor field \<open>preIndustrialCO2 = 280\<close> only). Decimal literals of the source
  stand for the rational they are written as. The properties proved of the stepper over this
  arithmetic are those that rounding leaves as they are; the energy partition, which
  rounding breaks, is treated over binary64 arithmetic in a section of its own.
\<close>

datatype jsnum = NaN | PInf | NInf | Fin real

fun is_fin :: "jsnum \<Rightarrow> bool" where
  "is_fin (Fin x) = True"
| "is_fin _ = False"

fun js_neg :: "jsnum \<Rightarrow> jsnum" where
  "js_neg NaN = NaN"
| "js_neg PInf = NInf"
| "js_neg NInf = PInf"
| "js_neg (Fin x) = Fin (- x)"

text \<open>\<open>a + b\<close>\<close>

fun js_add :: "jsnum \<Rightarrow> jsnum \<Rightarrow> jsnum" where
  "js_add NaN b = NaN"
| "js_add a NaN = NaN"
| "js_add PInf NInf = NaN"
| "js_add NInf PInf = NaN"
| "js_add PInf b = PInf"
| "js_add a PInf = PInf"
| "js_add NInf b = NInf"
| "js_add a NInf = NInf"
| "js_add (Fin x) (Fin y) = Fin (x + y)"

text \<open>\<open>a - b\<close>\<close>

definition js_sub :: "jsnum \<Rightarrow> jsnum \<Rightarrow> jsnum" where
  "js_sub a b = js_add a (js_neg b)"

text \<open>The infinity of the given sign (\<open>True\<close> is positive).\<close>

definition inf_of :: "bool \<Rightarrow> jsnum" where
  "inf_of pos = (if pos then PInf else NInf)"

text \<open>\<open>a * b\<close>: an infinity times zero is \<open>NaN\<close>, otherwise the signs multiply.\<close>

fun js_mul :: "jsnum \<Rightarrow> jsnum \<Rightarrow> jsnum" where
  "js_mul NaN b = NaN"
| "js_mul a NaN = NaN"
| "js_mul PInf PInf = PInf"
| "js_mul PInf NInf = NInf"
| "js_mul NInf PInf = NInf"
| "js_mul NInf NInf = PInf"
| "js_mul PInf (Fin y) = (if y = 0 then NaN else inf_of (0 < y))"
| "js_mul NInf (Fin y) = (if y = 0 then NaN else inf_of (y < 0))"
| "js_mul (Fin x) PInf = (if x = 0 then NaN else inf_of (0 < x))"
| "js_mul (Fin x) NInf = (if x = 0 then NaN else inf_of (x < 0))"
| "js_mul (Fin x) (Fin y) = Fin (x * y)"

text \<open>\<open>a / b\<close>: infinity over infinity and zero over zero are \<open>NaN\<close>.\<close>

fun js_div :: "jsnum \<Rightarrow> jsnum \<Rightarrow> jsnum" where
  "js_div NaN b = NaN"
| "js_div a NaN = NaN"
| "js_div (Fin x) PInf = Fin 0"
| "js_div (Fin x) NInf = Fin 0"
| "js_div a PInf = NaN"
| "js_div a NInf = NaN"
| "js_div PInf (Fin y) = inf_of (0 \<le> y)"
| "js_div NInf (Fin y) = inf_of (y < 0)"
| "js_div (Fin x) (Fin y) =
     (if y = 0 then (if x = 0 then NaN else inf_of (0 < x)) else Fin (x / y))"

text \<open>\<open>a <= b\<close> and \<open>a < b\<close>: every comparison with \<open>NaN\<close> is false.\<close>

fun js_le :: "jsnum \<Rightarrow> jsnum \<Rightarrow> bool" where
  "js_le NaN b = False"
| "js_le a NaN = False"
| "js_le NInf b = True"
| "js_le a PInf = True"
| "js_le PInf b = False"
| "js_le a NInf = False"
| "js_le (Fin x) (Fin y) = (x \<le> y)"

fun js_lt :: "jsnum \<Rightarrow> jsnum \<Rightarrow> bool" where
  "js_lt NaN b = False"
| "js_lt a NaN = False"
| "js_lt a NInf = False"
| "js_lt PInf b = False"
| "js_lt NInf b = True"
| "js_lt a PInf = True"
| "js_lt (Fin x) (Fin y) = (x < y)"

text \<open>\<open>Math.max(a, b)\<close> and \<open>Math.min(a, b)\<close>: \<open>NaN\<close> if either argument is.\<close>

definition Math_max :: "jsnum \<Rightarrow> jsnum \<Rightarrow> jsnum" where
  "Math_max a b = (if a = NaN \<or> b = NaN then NaN else if js_lt a b then b else a)"

definition Math_min :: "jsnum \<Rightarrow> jsnum \<Rightarrow> jsnum" where
  "Math_min a b = (if a = NaN \<or> b = NaN then NaN else if js_lt b a then b else a)"

text \<open>
  \<open>Math.log(x)\<close>: \<open>NaN\<close> below zero, \<open>-Infinity\<close> at zero, \<open>+0\<close> at one, the natural
  logarithm elsewhere.
\<close>

fun Math_log :: "jsnum \<Rightarrow> jsnum" where
  "Math_log NaN = NaN"
| "Math_log PInf = PInf"
| "Math_log NInf = NaN"
| "Math_log (Fin x) = (if x < 0 then NaN else if x = 0 then NInf else Fin (ln x))"

text \<open>
  \<open>Math.pow(x, n)\<close> for an exponent that is a natural-number literal, as in the source's
  \<open>Math.pow(currentTempK, 4)\<close>: anything to the power 0 is 1.
\<close>

fun Math_pow :: "jsnum \<Rightarrow> nat \<Rightarrow> jsnum" where
  "Math_pow a 0 = Fin 1"
| "Math_pow NaN n = NaN"
| "Math_pow PInf n = PInf"
| "Math_pow NInf n = inf_of (even n)"
| "Math_pow (Fin x) n = Fin (x ^ n)"

section \<open>The climate model\<close>

text \<open>
  The fields that \<open>ClimateModel\<close>'s constructor creates. An object can carry further
  properties: they are the extension of the record, which \<open>step\<close> is defined over.
\<close>

record ClimateModel =
  co2 :: jsnum
  albedo :: jsnum
  solarIntensity :: jsnum
  forestCover :: jsnum
  sigma :: jsnum
  preIndustrialCO2 :: jsnum
  temperature :: jsnum
  targetTemperature :: jsnum

definition ClimateModel_constructor :: ClimateModel where
  "ClimateModel_constructor =
     \<lparr>co2 = Fin 400, albedo = Fin 0.3, solarIntensity = Fin 1361, forestCover = Fin 30,
      sigma = Fin (5.67 / 10 ^ 8), preIndustrialCO2 = Fin 280,
      temperature = Fin 15.0, targetTemperature = Fin 15.0\<rparr>"

text \<open>
  A model object whose five state variables hold the given values; the constants keep what
  the constructor gave them, since nothing in the class assigns them again.
\<close>

definition climate_state :: "jsnum \<Rightarrow> jsnum \<Rightarrow> jsnum \<Rightarrow> jsnum \<Rightarrow> jsnum \<Rightarrow> ClimateModel" where
  "climate_state c a s f t =
     ClimateModel_constructor\<lparr>co2 := c, albedo := a, solarIntensity := s, forestCover := f,
       temperature := t\<rparr>"

text \<open>What \<open>step\<close> returns.\<close>

record snapshot =
  temp :: jsnum
  netEnergy :: jsnum
  absorbed :: jsnum
  reflected :: jsnum
  outgoing :: jsnum
  incoming :: jsnum

text \<open>The local constants of \<open>step\<close>, each as the source computes it.\<close>

definition incomingSolar :: "'a ClimateModel_scheme \<Rightarrow> jsnum" where
  "incomingSolar m = js_div (solarIntensity m) (Fin 4)"

definition absorbedSolar :: "'a ClimateModel_scheme \<Rightarrow> jsnum" where
  "absorbedSolar m = js_mul (incomingSolar m) (js_sub (Fin 1) (albedo m))"

definition forcingCO2 :: "'a ClimateModel_scheme \<Rightarrow> jsnum" where
  "forcingCO2 m = js_mul (Fin 5.35) (Math_log (js_div (co2 m) (preIndustrialCO2 m)))"

definition emissivity :: "'a ClimateModel_scheme \<Rightarrow> jsnum" where
  "emissivity m =
     Math_max (Fin 0.5)
       (Math_min (Fin 0.7) (js_sub (Fin 0.61) (js_mul (forcingCO2 m) (Fin 0.005))))"

definition currentTempK :: "'a ClimateModel_scheme \<Rightarrow> jsnum" where
  "currentTempK m = js_add (temperature m) (Fin 273.15)"

definition outgoingRad :: "'a ClimateModel_scheme \<Rightarrow> jsnum" where
  "outgoingRad m = js_mul (js_mul (emissivity m) (sigma m)) (Math_pow (currentTempK m) 4)"

definition netEnergy_now :: "'a ClimateModel_scheme \<Rightarrow> jsnum" where
  "netEnergy_now m = js_sub (absorbedSolar m) (outgoingRad m)"

definition heatCapacity :: jsnum where
  "heatCapacity = Fin 50"

definition tempChange :: "jsnum \<Rightarrow> 'a ClimateModel_scheme \<Rightarrow> jsnum" where
  "tempChange dt m = js_mul (js_div (netEnergy_now m) heatCapacity) dt"

text \<open>
  \<open>step(dt)\<close>: the returned object and the model after the assignment to
  \<open>this.temperature\<close>. The returned object is built after the assignment, so it reads the
  new temperature (and the albedo, which the assignment leaves alone).
\<close>

definition step ::
  "jsnum \<Rightarrow> 'a ClimateModel_scheme \<Rightarrow> snapshot \<times> 'a ClimateModel_scheme" where
  "step dt m =
     (let m' = m\<lparr>temperature := js_add (temperature m) (tempChange dt m)\<rparr>
      in (\<lparr>temp = temperature m',
           netEnergy = netEnergy_now m,
           absorbed = absorbedSolar m,
           reflected = js_mul (incomingSolar m) (albedo m'),
           outgoing = outgoingRad m,
           incoming = incomingSolar m\<rparr>, m'))"

text \<open>\<open>step()\<close> with the argument left out: the default \<open>dt = 0.1\<close>.\<close>

definition step_default :: "'a ClimateModel_scheme \<Rightarrow> snapshot \<times> 'a ClimateModel_scheme" where
  "step_default m = step (Fin 0.1) m"

text \<open>Repeated calls of \<open>step\<close>, one per element of the list of time steps.\<close>

fun steps :: "jsnum list \<Rightarrow> 'a ClimateModel_scheme \<Rightarrow> 'a ClimateModel_scheme" where
  "steps [] m = m"
| "steps (dt # dts) m = steps dts (snd (step dt m))"

subsection \<open>The stepper as the specification words it\<close>

text \<open>
  The specification's \<open>clamp(x, lo, hi)\<close>: \<open>lo\<close> below the interval, \<open>hi\<close> above it,
  \<open>x\<close> itself otherwise.
\<close>

definition clamp :: "jsnum \<Rightarrow> jsnum \<Rightarrow> jsnum \<Rightarrow> jsnum" where
  "clamp x lo hi = (if js_lt x lo then lo else if js_lt hi x then hi else x)"

text \<open>Steps (a) to (g) of the specification, in its order, and the snapshot it lists.\<close>

definition spec_step :: "jsnum \<Rightarrow> ClimateModel \<Rightarrow> snapshot \<times> ClimateModel" where
  "spec_step dt m =
     (let inc = js_div (solarIntensity m) (Fin 4);
          ab = js_mul inc (js_sub (Fin 1) (albedo m));
          forcing = js_mul (Fin 5.35) (Math_log (js_div (co2 m) (Fin 280)));
          em = clamp (js_sub (Fin 0.61) (js_mul forcing (Fin 0.005))) (Fin 0.5) (Fin 0.7);
          out = js_mul (js_mul em (Fin (5.67 / 10 ^ 8)))
                  (Math_pow (js_add (temperature m) (Fin 273.15)) 4);
          net = js_sub ab out;
          t' = js_add (temperature m) (js_mul (js_div net (Fin 50)) dt)
      in (\<lparr>temp = t', netEnergy = net, absorbed = ab, reflected = js_mul inc (albedo m),
           outgoing = out, incoming = inc\<rparr>,
          m\<lparr>temperature := t'\<rparr>))"

subsection \<open>Setting parameters\<close>

text \<open>
  The primitive values a field of the argument of \<open>updateParams\<close> can hold; a field that
  is absent reads as \<open>undefined\<close>.
\<close>

datatype jsval = JUndefined | JNull | JBool bool | JNum jsnum | JStr string

text \<open>
  \<open>Number(v)\<close> on a primitive value. The conversion of a string (ECMAScript's
  StringToNumber) is the parameter \<open>str2num\<close>.
\<close>

fun Number :: "(string \<Rightarrow> jsnum) \<Rightarrow> jsval \<Rightarrow> jsnum" where
  "Number str2num JUndefined = NaN"
| "Number str2num JNull = Fin 0"
| "Number str2num (JBool b) = (if b then Fin 1 else Fin 0)"
| "Number str2num (JNum n) = n"
| "Number str2num (JStr s) = str2num s"

text \<open>The fields \<open>co2\<close>, \<open>albedo\<close>, \<open>solar\<close> and \<open>forest\<close> of the argument.\<close>

record params =
  p_co2 :: jsval
  p_albedo :: jsval
  p_solar :: jsval
  p_forest :: jsval

definition updateParams :: "(string \<Rightarrow> jsnum) \<Rightarrow> params \<Rightarrow> ClimateModel \<Rightarrow> ClimateModel" where
  "updateParams str2num ps m =
     (let m1 = (if p_co2 ps \<noteq> JUndefined then m\<lparr>co2 := Number str2num (p_co2 ps)\<rparr> else m);
          m2 = (if p_albedo ps \<noteq> JUndefined
                then m1\<lparr>albedo := Number str2num (p_albedo ps)\<rparr> else m1);
          m3 = (if p_solar ps \<noteq> JUndefined
                then m2\<lparr>solarIntensity := Number str2num (p_solar ps)\<rparr> else m2)
      in (if p_forest ps \<noteq> JUndefined
          then m3\<lparr>forestCover := Number str2num (p_forest ps)\<rparr> else m3))"

section \<open>The charts\<close>

text \<open>
  Of \<open>ClimateGraphs\<close>, the fields that \<open>update\<close> reads and writes: the window size, the
  running label, the label and data arrays of the temperature chart and the data array of
  the balance chart. Drawing (\<open>Chart.update()\<close>) does not touch them.
\<close>

record ClimateGraphs =
  maxPoints :: jsnum
  timeLabel :: jsnum
  tempChart_labels :: "jsnum list"
  tempChart_data :: "jsnum list"
  balanceChart_data :: "jsnum list"

definition ClimateGraphs_constructor :: ClimateGraphs where
  "ClimateGraphs_constructor =
     \<lparr>maxPoints = Fin 50, timeLabel = Fin 0, tempChart_labels = [], tempChart_data = [],
      balanceChart_data = [Fin 240, Fin 240]\<rparr>"

text \<open>\<open>Array.prototype.shift\<close>: the array without its first element (an empty one stays empty).\<close>

fun shift :: "'a list \<Rightarrow> 'a list" where
  "shift [] = []"
| "shift (x # xs) = xs"

text \<open>\<open>xs.length\<close> as a Number.\<close>

definition js_length :: "'a list \<Rightarrow> jsnum" where
  "js_length xs = Fin (real (length xs))"

definition update :: "snapshot \<Rightarrow> ClimateGraphs \<Rightarrow> ClimateGraphs" where
  "update stats g =
     (let g1 = g\<lparr>timeLabel := js_add (timeLabel g) (Fin 1)\<rparr>;
          g2 = g1\<lparr>tempChart_labels := tempChart_labels g1 @ [timeLabel g1]\<rparr>;
          g3 = g2\<lparr>tempChart_data := tempChart_data g2 @ [temp stats]\<rparr>;
          g4 = (if js_lt (maxPoints g3) (js_length (tempChart_labels g3))
                then g3\<lparr>tempChart_labels := shift (tempChart_labels g3),
                        tempChart_data := shift (tempChart_data g3)\<rparr>
                else g3)
      in g4\<lparr>balanceChart_data := [absorbed stats, outgoing stats]\<rparr>)"

text \<open>The chart after one \<open>update\<close> per snapshot of the list, oldest first.\<close>

fun updates :: "snapshot list \<Rightarrow> ClimateGraphs \<Rightarrow> ClimateGraphs" where
  "updates [] g = g"
| "updates (s # ss) g = updates ss (update s g)"

text \<open>
  The labels that a run of updates pushes, one per call: the value of \<open>timeLabel\<close> right
  after its increment.
\<close>

fun labels_pushed :: "snapshot list \<Rightarrow> ClimateGraphs \<Rightarrow> jsnum list" where
  "labels_pushed [] g = []"
| "labels_pushed (s # ss) g = timeLabel (update s g) # labels_pushed ss (update s g)"

section \<open>Binary64 arithmetic\<close>

text \<open>
  The operations \<open>+\<close>, \<open>-\<close>, \<open>*\<close> and \<open>/\<close> of a JavaScript Number are those of IEEE-754
  binary64: the exact result, rounded to the nearest double, ties to the even significand.
  This section has that rounding, with the subnormal range and the overflow to an infinity
  (the sign of a zero is still not kept). It serves the energy partition of the snapshot,
  which uses these four operations only and is exact up to rounding, not beyond.
\<close>

text \<open>The nearest integer, a tie going to the even one.\<close>

definition round_even :: "real \<Rightarrow> int" where
  "round_even q =
     (let f = \<lfloor>q\<rfloor>; d = q - of_int f
      in if d < 1/2 then f else if 1/2 < d then f + 1 else if even f then f else f + 1)"

text \<open>
  The exponent of the last place of the doubles around \<open>y\<close>: 52 below the binary exponent
  of \<open>y\<close>, which is taken as -1022 in the subnormal range.
\<close>

definition ulp_exp :: "real \<Rightarrow> int" where
  "ulp_exp y = max \<lfloor>log 2 \<bar>y\<bar>\<rfloor> (- 1022) - 52"

text \<open>Rounding to 53 significant bits, the exponent unbounded above.\<close>

definition rd :: "real \<Rightarrow> real" where
  "rd y = (if y = 0 then 0 else of_int (round_even (y / 2 powi ulp_exp y)) * 2 powi ulp_exp y)"

text \<open>
  The double a result is delivered as: a finite result whose rounding reaches \<open>2^1024\<close>
  becomes the infinity of its sign.
\<close>

fun rnd64 :: "jsnum \<Rightarrow> jsnum" where
  "rnd64 (Fin y) = (if 2 ^ 1024 \<le> \<bar>rd y\<bar> then inf_of (0 < y) else Fin (rd y))"
| "rnd64 a = a"

definition d_add :: "jsnum \<Rightarrow> jsnum \<Rightarrow> jsnum" where
  "d_add a b = rnd64 (js_add a b)"

definition d_sub :: "jsnum \<Rightarrow> jsnum \<Rightarrow> jsnum" where
  "d_sub a b = rnd64 (js_sub a b)"

definition d_mul :: "jsnum \<Rightarrow> jsnum \<Rightarrow> jsnum" where
  "d_mul a b = rnd64 (js_mul a b)"

definition d_div :: "jsnum \<Rightarrow> jsnum \<Rightarrow> jsnum" where
  "d_div a b = rnd64 (js_div a b)"

text \<open>
  What \<open>step\<close> puts into \<open>incoming\<close>, \<open>absorbed\<close> and \<open>reflected\<close> of its snapshot
  (\<open>this.solarIntensity / 4\<close>, \<open>incomingSolar * (1 - this.albedo)\<close> and
  \<open>incomingSolar * this.albedo\<close>), with every operation rounded as the machine rounds it.
\<close>

definition incomingSolar64 :: "'a ClimateModel_scheme \<Rightarrow> jsnum" where
  "incomingSolar64 m = d_div (solarIntensity m) (Fin 4)"

definition absorbedSolar64 :: "'a ClimateModel_scheme \<Rightarrow> jsnum" where
  "absorbedSolar64 m = d_mul (incomingSolar64 m) (d_sub (Fin 1) (albedo m))"

definition reflected64 :: "'a ClimateModel_scheme \<Rightarrow> jsnum" where
  "reflected64 m = d_mul (incomingSolar64 m) (albedo m)"

text \<open>
  Two Numbers agree up to rounding when both are finite and differ by at most \<open>2^-50\<close> of
  the second, four units in the last place.
\<close>

fun within_rounding :: "jsnum \<Rightarrow> jsnum \<Rightarrow> bool" where
  "within_rounding (Fin t) (Fin x) = (\<bar>t - x\<bar> \<le> \<bar>x\<bar> / 2 ^ 50)"
| "within_rounding a b = False"

text \<open>The double that the literal \<open>0.06\<close> denotes.\<close>

definition albedo_006 :: real where
  "albedo_006 = 1080863910568919 / 2 ^ 54"

section \<open>Properties of the stepper\<close>

lemmas step_locals =
  netEnergy_now_def absorbedSolar_def incomingSolar_def outgoingRad_def
  emissivity_def forcingCO2_def currentTempK_def tempChange_def heatCapacity_def

lemma Math_pow_Fin [simp]: "Math_pow (Fin x) n = Fin (x ^ n)"
  by (cases n) simp_all

lemma climate_state_sel [simp]:
  "co2 (climate_state c a s f t) = c"
  "albedo (climate_state c a s f t) = a"
  "solarIntensity (climate_state c a s f t) = s"
  "forestCover (climate_state c a s f t) = f"
  "temperature (climate_state c a s f t) = t"
  "sigma (climate_state c a s f t) = Fin (5.67 / 10 ^ 8)"
  "preIndustrialCO2 (climate_state c a s f t) = Fin 280"
  "targetTemperature (climate_state c a s f t) = Fin 15"
  by (simp_all add: climate_state_def ClimateModel_constructor_def)

text \<open>
  The objects the class can produce are the ones \<open>climate_state\<close> describes: a new object
  is one, and \<open>updateParams\<close> and \<open>step\<close> lead from one to another.
\<close>

lemma constructor_climate_state:
  "ClimateModel_constructor = climate_state (Fin 400) (Fin 0.3) (Fin 1361) (Fin 30) (Fin 15)"
  by (simp add: climate_state_def ClimateModel_constructor_def)

lemma step_climate_state:
  "snd (step dt (climate_state c a s f t)) =
     climate_state c a s f (temp (fst (step dt (climate_state c a s f t))))"
  by (simp add: step_def Let_def climate_state_def)

lemma updateParams_climate_state:
  "\<exists>c' a' s' f'. updateParams n ps (climate_state c a s f t) = climate_state c' a' s' f' t"
proof -
  have "updateParams n ps (climate_state c a s f t) =
      climate_state (co2 (updateParams n ps (climate_state c a s f t)))
        (albedo (updateParams n ps (climate_state c a s f t)))
        (solarIntensity (updateParams n ps (climate_state c a s f t)))
        (forestCover (updateParams n ps (climate_state c a s f t))) t"
    by (simp add: updateParams_def Let_def climate_state_def)
  then show ?thesis by blast
qed

subsection \<open>The clamp\<close>

lemma max_min_is_clamp:
  "l \<le> h \<Longrightarrow> Math_max (Fin l) (Math_min (Fin h) v) = clamp v (Fin l) (Fin h)"
  by (cases v) (auto simp: Math_max_def Math_min_def clamp_def)

lemma max_min_in_range:
  "v \<noteq> NaN \<Longrightarrow> l \<le> h \<Longrightarrow>
   js_le (Fin l) (Math_max (Fin l) (Math_min (Fin h) v)) \<and>
   js_le (Math_max (Fin l) (Math_min (Fin h) v)) (Fin h)"
  by (cases v) (auto simp: Math_max_def Math_min_def)

lemma raw_emissivity_not_NaN:
  "js_le (Fin 0) c \<Longrightarrow>
   js_sub (Fin 0.61) (js_mul (js_mul (Fin 5.35) (Math_log (js_div c (Fin 280)))) (Fin 0.005))
     \<noteq> NaN"
  by (cases c) (auto simp: js_sub_def inf_of_def)

text \<open>
  C1. For every state (co2, albedo, solarIntensity, forestCover, temperature) and every
  \<open>dt\<close>, \<open>step(dt)\<close> is the computation the specification lists: incoming =
  solarIntensity/4, absorbed = incoming*(1-albedo), forcing = 5.35*ln(co2/280),
  emissivity = clamp(0.61 - forcing*0.005, 0.5, 0.7), outgoing =
  emissivity*sigma*(temperature+273.15)^4 with sigma = 5.67e-8, net = absorbed - outgoing,
  temperature becomes temperature + (net/50)*dt, and the snapshot holds the new
  temperature, net, absorbed, reflected, outgoing and incoming.
\<close>

theorem step_refines_spec:
  "step dt (climate_state c a s f t) = spec_step dt (climate_state c a s f t)"
  by (simp add: step_def spec_step_def Let_def step_locals max_min_is_clamp)

text \<open>
  C2, as amended. For every co2 that is zero, positive or \<open>+Infinity\<close> (so the forcing is
  a number, \<open>-Infinity\<close> or \<open>+Infinity\<close>), the emissivity that \<open>step\<close> computes lies in
  the closed interval [0.5, 0.7].
\<close>

theorem emissivity_clamped:
  "js_le (Fin 0) c \<Longrightarrow>
   js_le (Fin 0.5) (emissivity (climate_state c a s f t)) \<and>
   js_le (emissivity (climate_state c a s f t)) (Fin 0.7)"
  unfolding emissivity_def forcingCO2_def
  using max_min_in_range [OF raw_emissivity_not_NaN, of c "0.5" "0.7"] by simp

text \<open>The amended C2 at co2 = 0, where the forcing is \<open>-Infinity\<close>.\<close>

theorem emissivity_clamped_witness:
  "js_le (Fin 0) (Fin 0) \<and>
   js_le (Fin 0.5) (emissivity (climate_state (Fin 0) (Fin 0.3) (Fin 1361) (Fin 30) (Fin 15))) \<and>
   js_le (emissivity (climate_state (Fin 0) (Fin 0.3) (Fin 1361) (Fin 30) (Fin 15))) (Fin 0.7)"
proof -
  have h: "js_le (Fin 0) (Fin 0)" by simp
  show ?thesis
    using h emissivity_clamped [OF h, of "Fin 0.3" "Fin 1361" "Fin 30" "Fin 15"] by simp
qed

text \<open>
  C2 as stated fails: at co2 = -1 the logarithm is \<open>NaN\<close>, \<open>Math.min\<close> and \<open>Math.max\<close>
  hand it on, and the emissivity is not in the interval.
\<close>

theorem emissivity_NaN_counterexample:
  "\<not> (js_le (Fin 0.5)
         (emissivity (climate_state (Fin (- 1)) (Fin 0.3) (Fin 1361) (Fin 30) (Fin 15))) \<and>
       js_le (emissivity (climate_state (Fin (- 1)) (Fin 0.3) (Fin 1361) (Fin 30) (Fin 15)))
         (Fin 0.7))"
  by (simp add: emissivity_def forcingCO2_def js_sub_def Math_max_def Math_min_def)

text \<open>
  C3. \<open>updateParams\<close> overwrites each field that is provided with \<open>Number\<close> of the given
  value and keeps each field that is not; a number is stored as it is, whatever its range;
  the temperature and the constants are never touched.
\<close>

theorem updateParams_overwrites:
  "co2 (updateParams n ps m) =
     (if p_co2 ps = JUndefined then co2 m else Number n (p_co2 ps)) \<and>
   albedo (updateParams n ps m) =
     (if p_albedo ps = JUndefined then albedo m else Number n (p_albedo ps)) \<and>
   solarIntensity (updateParams n ps m) =
     (if p_solar ps = JUndefined then solarIntensity m else Number n (p_solar ps)) \<and>
   forestCover (updateParams n ps m) =
     (if p_forest ps = JUndefined then forestCover m else Number n (p_forest ps)) \<and>
   (\<forall>v. p_albedo ps = JNum v \<longrightarrow> albedo (updateParams n ps m) = v) \<and>
   temperature (updateParams n ps m) = temperature m \<and>
   sigma (updateParams n ps m) = sigma m \<and>
   preIndustrialCO2 (updateParams n ps m) = preIndustrialCO2 m \<and>
   targetTemperature (updateParams n ps m) = targetTemperature m"
  by (simp add: updateParams_def Let_def)

text \<open>
  C3 on a new model, with a negative albedo and a solar intensity given as a string: the
  albedo is stored as it is, the string goes through the conversion, and co2, forest cover
  and temperature stay.
\<close>

theorem updateParams_overwrites_witness:
  "p_albedo \<lparr>p_co2 = JUndefined, p_albedo = JNum (Fin (- 0.5)), p_solar = JStr ''1400'',
             p_forest = JUndefined\<rparr> = JNum (Fin (- 0.5)) \<and>
   albedo (updateParams (\<lambda>s. if s = ''1400'' then Fin 1400 else NaN)
     \<lparr>p_co2 = JUndefined, p_albedo = JNum (Fin (- 0.5)), p_solar = JStr ''1400'',
      p_forest = JUndefined\<rparr> ClimateModel_constructor) = Fin (- 0.5) \<and>
   solarIntensity (updateParams (\<lambda>s. if s = ''1400'' then Fin 1400 else NaN)
     \<lparr>p_co2 = JUndefined, p_albedo = JNum (Fin (- 0.5)), p_solar = JStr ''1400'',
      p_forest = JUndefined\<rparr> ClimateModel_constructor) = Fin 1400 \<and>
   co2 (updateParams (\<lambda>s. if s = ''1400'' then Fin 1400 else NaN)
     \<lparr>p_co2 = JUndefined, p_albedo = JNum (Fin (- 0.5)), p_solar = JStr ''1400'',
      p_forest = JUndefined\<rparr> ClimateModel_constructor) = Fin 400 \<and>
   temperature (updateParams (\<lambda>s. if s = ''1400'' then Fin 1400 else NaN)
     \<lparr>p_co2 = JUndefined, p_albedo = JNum (Fin (- 0.5)), p_solar = JStr ''1400'',
      p_forest = JUndefined\<rparr> ClimateModel_constructor) = Fin 15"
  using updateParams_overwrites [of "\<lambda>s. if s = ''1400'' then Fin 1400 else NaN"
      "\<lparr>p_co2 = JUndefined, p_albedo = JNum (Fin (- 0.5)), p_solar = JStr ''1400'',
        p_forest = JUndefined\<rparr>" ClimateModel_constructor]
  by (simp add: ClimateModel_constructor_def)

subsection \<open>A step at zero net energy\<close>

lemma snapshot_netEnergy: "netEnergy (fst (step dt m)) = netEnergy_now m"
  by (simp add: step_def Let_def)

lemma net_zero_step_id: "netEnergy_now m = Fin 0 \<Longrightarrow> is_fin dt \<Longrightarrow> snd (step dt m) = m"
  by (cases dt; cases "temperature m")
     (simp_all add: step_def Let_def tempChange_def heatCapacity_def)

lemma net_zero_steps_id:
  "netEnergy_now m = Fin 0 \<Longrightarrow> list_all is_fin dts \<Longrightarrow> steps dts m = m"
  by (induction dts) (simp_all add: net_zero_step_id)

text \<open>
  C4, as amended. For every state in which the net energy that \<open>step\<close> computes is zero and
  every finite \<open>dt\<close> (neither \<open>NaN\<close> nor an infinity), \<open>step(dt)\<close> leaves the temperature
  unchanged, and so does any number of further steps with finite time steps and unchanged
  parameters.
\<close>

theorem net_zero_holds_temperature:
  assumes "netEnergy (fst (step dt m)) = Fin 0" and "is_fin dt" and "list_all is_fin dts"
  shows "temperature (snd (step dt m)) = temperature m \<and>
         temperature (steps dts m) = temperature m"
  using assms by (simp add: snapshot_netEnergy net_zero_step_id net_zero_steps_id)

text \<open>
  The amended C4 on a state with no sunlight at absolute zero, where absorbed and outgoing
  radiation are both 0: one step of 0.1 and then steps of 0.1 and 2.
\<close>

theorem net_zero_holds_temperature_witness:
  "netEnergy (fst (step (Fin 0.1)
      (climate_state (Fin 280) (Fin 0.3) (Fin 0) (Fin 30) (Fin (- 273.15))))) = Fin 0 \<and>
   is_fin (Fin 0.1) \<and> list_all is_fin [Fin 0.1, Fin 2] \<and>
   temperature (snd (step (Fin 0.1)
      (climate_state (Fin 280) (Fin 0.3) (Fin 0) (Fin 30) (Fin (- 273.15))))) =
     Fin (- 273.15) \<and>
   temperature (steps [Fin 0.1, Fin 2]
      (climate_state (Fin 280) (Fin 0.3) (Fin 0) (Fin 30) (Fin (- 273.15)))) =
     Fin (- 273.15)"
proof -
  let ?m = "climate_state (Fin 280) (Fin 0.3) (Fin 0) (Fin 30) (Fin (- 273.15))"
  have n: "netEnergy (fst (step (Fin 0.1) ?m)) = Fin 0"
    by (simp add: step_def Let_def step_locals js_sub_def Math_max_def Math_min_def)
  have f: "is_fin (Fin 0.1)" "list_all is_fin [Fin 0.1, Fin 2]"
    by simp_all
  show ?thesis
    using n f net_zero_holds_temperature [OF n f] by simp
qed

text \<open>
  C4 as stated fails at \<open>dt = Infinity\<close>: on the same state the net energy is 0, the
  temperature change is \<open>(0/50) * Infinity = NaN\<close>, and the temperature becomes \<open>NaN\<close>.
\<close>

theorem net_zero_infinite_dt_counterexample:
  "netEnergy (fst (step PInf
      (climate_state (Fin 280) (Fin 0.3) (Fin 0) (Fin 30) (Fin (- 273.15))))) = Fin 0 \<and>
   temperature (snd (step PInf
      (climate_state (Fin 280) (Fin 0.3) (Fin 0) (Fin 30) (Fin (- 273.15))))) \<noteq>
   temperature (climate_state (Fin 280) (Fin 0.3) (Fin 0) (Fin 30) (Fin (- 273.15)))"
  by (simp add: step_def Let_def step_locals js_sub_def Math_max_def Math_min_def)

text \<open>
  C5. At co2 = 280, the value of \<open>preIndustrialCO2\<close>, the CO2 forcing that \<open>step\<close>
  computes is exactly 0.
\<close>

theorem forcing_zero_at_baseline: "forcingCO2 (climate_state (Fin 280) a s f t) = Fin 0"
  by (simp add: forcingCO2_def)

text \<open>
  C6. \<open>step\<close> has no input but the state and \<open>dt\<close>: two calls with the same \<open>dt\<close> on
  objects that agree on co2, albedo, solarIntensity, forestCover and temperature (and on
  the two constants of the class) return the same snapshot and leave the same values in
  the five state variables, whatever else differs between the objects, here their
  \<open>targetTemperature\<close> and any further properties; and each call leaves that rest as it was.
\<close>

theorem step_deterministic:
  fixes m1 :: "'a ClimateModel_scheme" and m2 :: "'b ClimateModel_scheme"
  assumes "co2 m1 = co2 m2" and "albedo m1 = albedo m2"
    and "solarIntensity m1 = solarIntensity m2" and "forestCover m1 = forestCover m2"
    and "temperature m1 = temperature m2"
    and "sigma m1 = sigma m2" and "preIndustrialCO2 m1 = preIndustrialCO2 m2"
  shows "fst (step dt m1) = fst (step dt m2) \<and>
         co2 (snd (step dt m1)) = co2 (snd (step dt m2)) \<and>
         albedo (snd (step dt m1)) = albedo (snd (step dt m2)) \<and>
         solarIntensity (snd (step dt m1)) = solarIntensity (snd (step dt m2)) \<and>
         forestCover (snd (step dt m1)) = forestCover (snd (step dt m2)) \<and>
         temperature (snd (step dt m1)) = temperature (snd (step dt m2)) \<and>
         targetTemperature (snd (step dt m1)) = targetTemperature m1 \<and>
         ClimateModel.more (snd (step dt m1)) = ClimateModel.more m1"
  using assms by (simp add: step_def Let_def step_locals)

text \<open>
  C6 on a new model and on an object with the same state but another
  \<open>targetTemperature\<close> and one more property, both stepped with the default \<open>dt\<close>.
\<close>

theorem step_deterministic_witness:
  "co2 ClimateModel_constructor =
     co2 (ClimateModel.extend (ClimateModel_constructor\<lparr>targetTemperature := Fin 99\<rparr>) True) \<and>
   albedo ClimateModel_constructor =
     albedo (ClimateModel.extend (ClimateModel_constructor\<lparr>targetTemperature := Fin 99\<rparr>) True) \<and>
   solarIntensity ClimateModel_constructor =
     solarIntensity
       (ClimateModel.extend (ClimateModel_constructor\<lparr>targetTemperature := Fin 99\<rparr>) True) \<and>
   forestCover ClimateModel_constructor =
     forestCover
       (ClimateModel.extend (ClimateModel_constructor\<lparr>targetTemperature := Fin 99\<rparr>) True) \<and>
   temperature ClimateModel_constructor =
     temperature
       (ClimateModel.extend (ClimateModel_constructor\<lparr>targetTemperature := Fin 99\<rparr>) True) \<and>
   sigma ClimateModel_constructor =
     sigma (ClimateModel.extend (ClimateModel_constructor\<lparr>targetTemperature := Fin 99\<rparr>) True) \<and>
   preIndustrialCO2 ClimateModel_constructor =
     preIndustrialCO2
       (ClimateModel.extend (ClimateModel_constructor\<lparr>targetTemperature := Fin 99\<rparr>) True) \<and>
   fst (step (Fin 0.1) ClimateModel_constructor) =
     fst (step (Fin 0.1)
       (ClimateModel.extend (ClimateModel_constructor\<lparr>targetTemperature := Fin 99\<rparr>) True)) \<and>
   temperature (snd (step (Fin 0.1) ClimateModel_constructor)) =
     temperature (snd (step (Fin 0.1)
       (ClimateModel.extend (ClimateModel_constructor\<lparr>targetTemperature := Fin 99\<rparr>) True)))"
proof -
  let ?m1 = "ClimateModel_constructor"
  let ?m2 = "ClimateModel.extend (ClimateModel_constructor\<lparr>targetTemperature := Fin 99\<rparr>) True"
  have h: "co2 ?m1 = co2 ?m2" "albedo ?m1 = albedo ?m2"
    "solarIntensity ?m1 = solarIntensity ?m2" "forestCover ?m1 = forestCover ?m2"
    "temperature ?m1 = temperature ?m2" "sigma ?m1 = sigma ?m2"
    "preIndustrialCO2 ?m1 = preIndustrialCO2 ?m2"
    by (simp_all add: ClimateModel_constructor_def ClimateModel.defs)
  show ?thesis
    using h step_deterministic [OF h, of "Fin 0.1"] by simp
qed

text \<open>
  C7. The forest cover has no part in the physics: two states that differ in forestCover
  only give, for any \<open>dt\<close>, the same snapshot and the same new temperature.
\<close>

theorem forestCover_no_influence:
  "fst (step dt (m\<lparr>forestCover := f1\<rparr>)) = fst (step dt (m\<lparr>forestCover := f2\<rparr>)) \<and>
   temperature (snd (step dt (m\<lparr>forestCover := f1\<rparr>))) =
     temperature (snd (step dt (m\<lparr>forestCover := f2\<rparr>)))"
  by (simp add: step_def Let_def step_locals)

text \<open>
  C8. \<open>step\<close> assigns the temperature and nothing else: co2, albedo, solarIntensity and
  forestCover (and the constants) are after the step what they were before.
\<close>

theorem step_frame:
  "co2 (snd (step dt m)) = co2 m \<and> albedo (snd (step dt m)) = albedo m \<and>
   solarIntensity (snd (step dt m)) = solarIntensity m \<and>
   forestCover (snd (step dt m)) = forestCover m \<and>
   sigma (snd (step dt m)) = sigma m \<and>
   preIndustrialCO2 (snd (step dt m)) = preIndustrialCO2 m \<and>
   targetTemperature (snd (step dt m)) = targetTemperature m \<and>
   snd (step dt m) = m\<lparr>temperature := temp (fst (step dt m))\<rparr>"
  by (simp add: step_def Let_def)

section \<open>Properties of the energy partition\<close>

subsection \<open>The rounding error\<close>

lemma round_even_err: "\<bar>of_int (round_even q) - q\<bar> \<le> 1/2"
  unfolding round_even_def Let_def by (auto simp: abs_le_iff)

lemma two_powr_int: "(2::real) powr of_int k = 2 powi k"
  by (simp add: powr_real_of_int')

lemma floor_log2_eval:
  assumes "2 powi k \<le> x" "x < 2 powi (k + 1)"
  shows "\<lfloor>log 2 x\<rfloor> = k"
proof -
  have "(0::real) < 2 powi k" by simp
  with assms(1) have pos: "0 < x" by linarith
  have "2 powr (of_int k) \<le> x \<and> x < 2 powr (of_int (k + 1))"
    using assms unfolding two_powr_int by simp
  then show ?thesis
    using floor_log_eq_powr_iff [of x 2 k] pos by simp
qed

lemma ulp_exp_eval:
  assumes "2 powi k \<le> \<bar>y\<bar>" "\<bar>y\<bar> < 2 powi (k + 1)" "- 1022 \<le> k"
  shows "ulp_exp y = k - 52"
  using floor_log2_eval[OF assms(1,2)] assms(3) by (simp add: ulp_exp_def)

lemma rd_eval:
  assumes "2 powi k \<le> \<bar>y\<bar>" "\<bar>y\<bar> < 2 powi (k + 1)" "- 1022 \<le> k"
  shows "rd y = of_int (round_even (y / 2 powi (k - 52))) * 2 powi (k - 52)"
proof -
  have "(0::real) < 2 powi k" by simp
  with assms(1) have "0 < \<bar>y\<bar>" by linarith
  then have "y \<noteq> 0" by simp
  then show ?thesis by (simp add: rd_def ulp_exp_eval[OF assms])
qed

lemma rd_abs_err: "\<bar>rd y - y\<bar> \<le> 2 powi ulp_exp y / 2"
proof (cases "y = 0")
  case True then show ?thesis by (simp add: rd_def)
next
  case False
  let ?u = "(2::real) powi ulp_exp y"
  have u: "0 < ?u" by simp
  have "rd y - y = (of_int (round_even (y / ?u)) - y / ?u) * ?u"
    using False u by (simp add: rd_def field_simps)
  then have "\<bar>rd y - y\<bar> = \<bar>of_int (round_even (y / ?u)) - y / ?u\<bar> * ?u"
    using u by (simp add: abs_mult)
  also have "\<dots> \<le> (1/2) * ?u"
    using round_even_err[of "y / ?u"] u by (intro mult_right_mono) simp_all
  finally show ?thesis by simp
qed

lemma ulp_bound: "y \<noteq> 0 \<Longrightarrow> 2 powi ulp_exp y / 2 \<le> \<bar>y\<bar> / 2 ^ 53 + 1 / 2 ^ 1075"
proof -
  assume y: "y \<noteq> 0"
  let ?e = "\<lfloor>log 2 \<bar>y\<bar>\<rfloor>"
  show ?thesis
  proof (cases "- 1022 \<le> ?e")
    case True
    then have ue: "ulp_exp y = ?e - 52" by (simp add: ulp_exp_def)
    have "2 powr (of_int ?e) \<le> \<bar>y\<bar>"
      using y floor_log_eq_powr_iff [of "\<bar>y\<bar>" 2 ?e] by simp
    then have le: "2 powi ?e \<le> \<bar>y\<bar>" by (simp add: two_powr_int)
    have "2 powi (?e - 52) / 2 = (2::real) powi ?e / 2 ^ 53"
      by (simp add: power_int_diff)
    also have "\<dots> \<le> \<bar>y\<bar> / 2 ^ 53" using le by (simp add: divide_right_mono)
    finally show ?thesis unfolding ue by simp
  next
    case False
    then have ue: "ulp_exp y = - 1074" by (simp add: ulp_exp_def)
    have "(2::real) powi (- 1074) / 2 = 1 / 2 ^ 1075"
      by (simp add: power_int_minus_divide)
    then show ?thesis unfolding ue by simp
  qed
qed

lemma rd_err: "\<bar>rd y - y\<bar> \<le> \<bar>y\<bar> / 2 ^ 53 + 1 / 2 ^ 1075"
proof (cases "y = 0")
  case True then show ?thesis by (simp add: rd_def)
next
  case False
  then show ?thesis using rd_abs_err[of y] ulp_bound[of y] by linarith
qed

lemma rd_err': "\<bar>rd y - y\<bar> \<le> (1 / 2 ^ 53) * \<bar>y\<bar> + 1 / 2 ^ 1075"
  using rd_err[of y] by simp

lemma rd_crude: "\<bar>rd y\<bar> \<le> 2 * \<bar>y\<bar> + 1"
proof -
  have "\<bar>y\<bar> / 2 ^ 53 \<le> \<bar>y\<bar>" by (simp add: field_simps)
  moreover have "(1::real) / 2 ^ 1075 \<le> 1" by simp
  ultimately show ?thesis using rd_err[of y] by linarith
qed

lemma rnd64_fin: "\<bar>y\<bar> \<le> 2 ^ 1020 \<Longrightarrow> rnd64 (Fin y) = Fin (rd y)"
proof -
  assume y: "\<bar>y\<bar> \<le> 2 ^ 1020"
  have "\<bar>rd y\<bar> \<le> 2 * 2 ^ 1020 + 1" using rd_crude[of y] y by linarith
  also have "\<dots> < (2::real) ^ 1024" by simp
  finally show ?thesis by simp
qed

lemma rnd64_eval:
  assumes "2 powi k \<le> \<bar>y\<bar>" "\<bar>y\<bar> < 2 powi (k + 1)" "- 1022 \<le> k" "\<bar>y\<bar> \<le> 2 ^ 1020"
  shows "rnd64 (Fin y) = Fin (of_int (round_even (y / 2 powi (k - 52))) * 2 powi (k - 52))"
  using rnd64_fin[OF assms(4)] rd_eval[OF assms(1,2,3)] by simp

text \<open>The literal \<open>0.06\<close> is read as \<open>albedo_006\<close>.\<close>

lemma rd_006: "rd (6 / 100) = albedo_006"
  by (subst rd_eval[where k = "- 5"])
     (simp_all add: albedo_006_def round_even_def power_int_minus_divide)

subsection \<open>The partition at solarIntensity 1301 and albedo 0.06\<close>

lemma at_1301_inc: "d_div (Fin 1301) (Fin 4) = Fin (1301 / 4)"
proof -
  have "rnd64 (Fin (1301 / 4)) = Fin (1301 / 4)"
    by (subst rnd64_eval[where k = 8]) (simp_all add: round_even_def power_int_minus_divide)
  then show ?thesis by (simp add: d_div_def del: rnd64.simps)
qed

lemma at_1301_sub: "d_sub (Fin 1) (Fin albedo_006) = Fin (2116691824864133 / 2 ^ 51)"
proof -
  have "rnd64 (Fin (1 - albedo_006)) = Fin (2116691824864133 / 2 ^ 51)"
    by (subst rnd64_eval[where k = "- 1"])
       (simp_all add: albedo_006_def round_even_def power_int_minus_divide)
  then show ?thesis by (simp add: d_sub_def js_sub_def del: rnd64.simps)
qed

lemma at_1301_abs:
  "d_mul (Fin (1301 / 4)) (Fin (2116691824864133 / 2 ^ 51)) = Fin (5378547000289525 / 2 ^ 44)"
proof -
  have "rnd64 (Fin (1301 / 4 * (2116691824864133 / 2 ^ 51))) = Fin (5378547000289525 / 2 ^ 44)"
    by (subst rnd64_eval[where k = 8]) (simp_all add: round_even_def power_int_minus_divide)
  then show ?thesis unfolding d_mul_def js_mul.simps .
qed

lemma at_1301_ref: "d_mul (Fin (1301 / 4)) (Fin albedo_006) = Fin (1373246042627113 / 2 ^ 46)"
proof -
  have "rnd64 (Fin (1301 / 4 * albedo_006)) = Fin (1373246042627113 / 2 ^ 46)"
    by (subst rnd64_eval[where k = 4])
       (simp_all add: albedo_006_def round_even_def power_int_minus_divide)
  then show ?thesis unfolding d_mul_def js_mul.simps .
qed

lemma at_1301_sum:
  "d_add (Fin (5378547000289525 / 2 ^ 44)) (Fin (1373246042627113 / 2 ^ 46)) =
     Fin (5721858510946303 / 2 ^ 44)"
proof -
  have "rnd64 (Fin (5378547000289525 / 2 ^ 44 + 1373246042627113 / 2 ^ 46)) =
      Fin (5721858510946303 / 2 ^ 44)"
    by (subst rnd64_eval[where k = 8]) (simp_all add: round_even_def power_int_minus_divide)
  then show ?thesis unfolding d_add_def js_add.simps .
qed

subsection \<open>The partition up to rounding\<close>

text \<open>
  The error of the four roundings, as real arithmetic: \<open>u\<close> is the relative and \<open>n\<close> the
  absolute rounding error.
\<close>

lemma partition_bound:
  fixes x a s1 p r t u n :: real
  assumes a: "0 \<le> a" "a \<le> 1" and x: "1/8 \<le> x" and u: "0 < u" "u \<le> 1/16"
    and n: "0 \<le> n" "n \<le> u / 64"
    and e1: "\<bar>s1 - (1 - a)\<bar> \<le> u * \<bar>1 - a\<bar> + n"
    and e2: "\<bar>p - x * s1\<bar> \<le> u * \<bar>x * s1\<bar> + n"
    and e3: "\<bar>r - x * a\<bar> \<le> u * \<bar>x * a\<bar> + n"
    and e4: "\<bar>t - (p + r)\<bar> \<le> u * \<bar>p + r\<bar> + n"
  shows "\<bar>t - x\<bar> \<le> 8 * u * x \<and> \<bar>p + r - x\<bar> \<le> 8 * u * x"
proof -
  have xpos: "0 < x" using x by linarith
  have ux: "0 \<le> u * x" using u xpos by simp
  have nux: "n \<le> u * x / 8"
  proof -
    have "u / 8 \<le> u * x" using x u by (simp add: field_simps)
    with n show ?thesis by linarith
  qed
  have "u * \<bar>1 - a\<bar> \<le> u * 1" using a u by (intro mult_left_mono) auto
  with e1 n u have d1: "\<bar>s1 - (1 - a)\<bar> \<le> 2 * u" by linarith
  then have s1: "\<bar>s1\<bar> \<le> 2" using a u by linarith
  have xs1: "\<bar>x * s1\<bar> \<le> 2 * x"
    using s1 xpos by (simp add: abs_mult)
  have "u * \<bar>x * s1\<bar> \<le> u * (2 * x)" using xs1 u by (intro mult_left_mono) auto
  with e2 have d2: "\<bar>p - x * s1\<bar> \<le> 2 * (u * x) + n" by linarith
  have xa: "\<bar>x * a\<bar> \<le> x" using a xpos by (simp add: abs_mult)
  have "u * \<bar>x * a\<bar> \<le> u * x" using xa u by (intro mult_left_mono) auto
  with e3 have d3: "\<bar>r - x * a\<bar> \<le> u * x + n" by linarith
  have "\<bar>x * (s1 - (1 - a))\<bar> \<le> x * (2 * u)"
    using d1 xpos by (simp add: abs_mult)
  then have d0: "\<bar>x * s1 + x * a - x\<bar> \<le> 2 * (u * x)" by (simp add: algebra_simps)
  have d5: "\<bar>p + r - x\<bar> \<le> 5 * (u * x) + 2 * n" using d0 d2 d3 by linarith
  have "u * x \<le> x / 16" using u xpos by (simp add: field_simps)
  with d5 nux ux have pr: "\<bar>p + r\<bar> \<le> 2 * x" by linarith
  have "u * \<bar>p + r\<bar> \<le> u * (2 * x)" using pr u by (intro mult_left_mono) auto
  with e4 have d4: "\<bar>t - (p + r)\<bar> \<le> 2 * (u * x) + n" by linarith
  show ?thesis using d4 d5 nux ux by (intro conjI) linarith+
qed

text \<open>
  C10, as amended. For a state whose albedo is a number in [0, 1] and whose solarIntensity
  is a number in [1, 2^1000], the snapshot's absorbed plus reflected, added as Numbers or
  added exactly, is finite and differs from incoming by at most \<open>2^-50\<close> of incoming: the
  partition holds up to the rounding of the subtraction, the two products and the sum.
\<close>

theorem energy_partition_within_rounding:
  assumes al: "albedo m = Fin a" and a: "0 \<le> a" "a \<le> 1"
    and so: "solarIntensity m = Fin s" and s: "1 \<le> s" "s \<le> 2 ^ 1000"
  shows "within_rounding (d_add (absorbedSolar64 m) (reflected64 m)) (incomingSolar64 m) \<and>
         within_rounding (js_add (absorbedSolar64 m) (reflected64 m)) (incomingSolar64 m)"
proof -
  define B :: real where "B = 2 ^ 1000"
  have B: "2 \<le> B" "16 * B \<le> 2 ^ 1020" by (simp_all add: B_def)
  have sB: "s \<le> B" using s by (simp add: B_def)
  define x where "x = rd (s / 4)"
  define s1 where "s1 = rd (1 - a)"
  define p where "p = rd (x * s1)"
  define r where "r = rd (x * a)"
  define t where "t = rd (p + r)"
  have "\<bar>s / 4\<bar> \<le> 2 ^ 1020" using s sB B by linarith
  then have "rnd64 (Fin (s / 4)) = Fin x" unfolding x_def by (rule rnd64_fin)
  then have inc: "incomingSolar64 m = Fin x"
    by (simp add: incomingSolar64_def d_div_def so del: rnd64.simps)
  have ex: "\<bar>x - s / 4\<bar> \<le> (1 / 2 ^ 53) * \<bar>s / 4\<bar> + 1 / 2 ^ 1075"
    unfolding x_def by (rule rd_err')
  have "(1 / 2 ^ 53) * \<bar>s / 4\<bar> \<le> (1 / 4) * (s / 4)"
    using s by (intro mult_mono) simp_all
  moreover have "(1::real) / 2 ^ 1075 \<le> 1 / 64" by simp
  ultimately have x8: "1 / 8 \<le> x" using ex s by linarith
  have xB: "\<bar>x\<bar> \<le> B"
    using rd_crude[of "s / 4"] s(1) sB B(1) unfolding x_def by linarith
  have xpos: "0 < x" using x8 by linarith
  have "\<bar>1 - a\<bar> \<le> 2 ^ 1020" using a B by linarith
  then have "rnd64 (Fin (1 - a)) = Fin s1" unfolding s1_def by (rule rnd64_fin)
  then have sub: "d_sub (Fin 1) (albedo m) = Fin s1"
    by (simp add: d_sub_def js_sub_def al del: rnd64.simps)
  have "\<bar>1 - a\<bar> \<le> 1" using a by simp
  then have s1le: "\<bar>s1\<bar> \<le> 3" using rd_crude[of "1 - a"] unfolding s1_def by simp
  have xs1: "\<bar>x * s1\<bar> \<le> 3 * B"
  proof -
    have "\<bar>x * s1\<bar> = \<bar>x\<bar> * \<bar>s1\<bar>" by (simp add: abs_mult)
    also have "\<dots> \<le> B * 3" using xB s1le by (intro mult_mono) auto
    finally show ?thesis by simp
  qed
  then have "\<bar>x * s1\<bar> \<le> 2 ^ 1020" using B by linarith
  then have "rnd64 (Fin (x * s1)) = Fin p" unfolding p_def by (rule rnd64_fin)
  then have ab: "absorbedSolar64 m = Fin p"
    by (simp add: absorbedSolar64_def d_mul_def inc sub del: rnd64.simps)
  have xa: "\<bar>x * a\<bar> \<le> B"
  proof -
    have "\<bar>x * a\<bar> = \<bar>x\<bar> * \<bar>a\<bar>" by (simp add: abs_mult)
    also have "\<dots> \<le> B * 1" using xB a by (intro mult_mono) auto
    finally show ?thesis by simp
  qed
  then have "\<bar>x * a\<bar> \<le> 2 ^ 1020" using B by linarith
  then have "rnd64 (Fin (x * a)) = Fin r" unfolding r_def by (rule rnd64_fin)
  then have re: "reflected64 m = Fin r"
    by (simp add: reflected64_def d_mul_def inc al del: rnd64.simps)
  have e1: "\<bar>s1 - (1 - a)\<bar> \<le> (1 / 2 ^ 53) * \<bar>1 - a\<bar> + 1 / 2 ^ 1075"
    unfolding s1_def by (rule rd_err')
  have e2: "\<bar>p - x * s1\<bar> \<le> (1 / 2 ^ 53) * \<bar>x * s1\<bar> + 1 / 2 ^ 1075"
    unfolding p_def by (rule rd_err')
  have e3: "\<bar>r - x * a\<bar> \<le> (1 / 2 ^ 53) * \<bar>x * a\<bar> + 1 / 2 ^ 1075"
    unfolding r_def by (rule rd_err')
  have e4: "\<bar>t - (p + r)\<bar> \<le> (1 / 2 ^ 53) * \<bar>p + r\<bar> + 1 / 2 ^ 1075"
    unfolding t_def by (rule rd_err')
  have bound: "\<bar>t - x\<bar> \<le> 8 * (1 / 2 ^ 53) * x \<and> \<bar>p + r - x\<bar> \<le> 8 * (1 / 2 ^ 53) * x"
    by (rule partition_bound [OF a x8 _ _ _ _ e1 e2 e3 e4]) simp_all
  have "\<bar>p\<bar> \<le> 2 * (3 * B) + 1"
    using rd_crude[of "x * s1"] xs1 unfolding p_def by linarith
  moreover have "\<bar>r\<bar> \<le> 2 * B + 1"
    using rd_crude[of "x * a"] xa unfolding r_def by linarith
  ultimately have "\<bar>p + r\<bar> \<le> 2 ^ 1020" using B by linarith
  then have "rnd64 (Fin (p + r)) = Fin t" unfolding t_def by (rule rnd64_fin)
  then have sum: "d_add (Fin p) (Fin r) = Fin t"
    by (simp add: d_add_def del: rnd64.simps)
  have "8 * (1 / 2 ^ 53) * x = \<bar>x\<bar> / 2 ^ 50" using xpos by simp
  with bound show ?thesis by (simp add: inc ab re sum)
qed

text \<open>The amended C10 at solarIntensity 1301 and albedo 0.06.\<close>

theorem energy_partition_within_rounding_witness:
  "albedo (climate_state (Fin 400) (Fin albedo_006) (Fin 1301) (Fin 30) (Fin 15)) = Fin albedo_006 \<and>
   0 \<le> albedo_006 \<and> albedo_006 \<le> 1 \<and>
   solarIntensity (climate_state (Fin 400) (Fin albedo_006) (Fin 1301) (Fin 30) (Fin 15)) = Fin 1301 \<and>
   (1::real) \<le> 1301 \<and> (1301::real) \<le> 2 ^ 1000 \<and>
   within_rounding
     (d_add (absorbedSolar64 (climate_state (Fin 400) (Fin albedo_006) (Fin 1301) (Fin 30) (Fin 15)))
        (reflected64 (climate_state (Fin 400) (Fin albedo_006) (Fin 1301) (Fin 30) (Fin 15))))
     (incomingSolar64 (climate_state (Fin 400) (Fin albedo_006) (Fin 1301) (Fin 30) (Fin 15)))"
proof -
  let ?m = "climate_state (Fin 400) (Fin albedo_006) (Fin 1301) (Fin 30) (Fin 15)"
  have h: "albedo ?m = Fin albedo_006" "0 \<le> albedo_006" "albedo_006 \<le> 1"
    "solarIntensity ?m = Fin 1301" "(1::real) \<le> 1301" "(1301::real) \<le> 2 ^ 1000"
    by (simp_all add: albedo_006_def)
  show ?thesis
    using h energy_partition_within_rounding [OF h] by simp
qed

text \<open>
  C10 as stated fails on ordinary input: at solarIntensity 1301 and albedo 0.06, absorbed is
  305.73499999999996, reflected is 19.515, their sum is 325.24999999999994 and incoming is
  325.25.
\<close>

theorem energy_partition_rounding_counterexample:
  "d_add (absorbedSolar64 (climate_state (Fin 400) (Fin albedo_006) (Fin 1301) (Fin 30) (Fin 15)))
     (reflected64 (climate_state (Fin 400) (Fin albedo_006) (Fin 1301) (Fin 30) (Fin 15)))
   \<noteq> incomingSolar64 (climate_state (Fin 400) (Fin albedo_006) (Fin 1301) (Fin 30) (Fin 15))"
proof -
  let ?m = "climate_state (Fin 400) (Fin albedo_006) (Fin 1301) (Fin 30) (Fin 15)"
  have i: "incomingSolar64 ?m = Fin (1301 / 4)"
    unfolding incomingSolar64_def climate_state_sel by (rule at_1301_inc)
  have a: "absorbedSolar64 ?m = Fin (5378547000289525 / 2 ^ 44)"
    unfolding absorbedSolar64_def i climate_state_sel at_1301_sub by (rule at_1301_abs)
  have r: "reflected64 ?m = Fin (1373246042627113 / 2 ^ 46)"
    unfolding reflected64_def i climate_state_sel by (rule at_1301_ref)
  have "d_add (absorbedSolar64 ?m) (reflected64 ?m) = Fin (5721858510946303 / 2 ^ 44)"
    unfolding a r by (rule at_1301_sum)
  then show ?thesis unfolding i by simp
qed

text \<open>
  Outside the range the partition can fail outright: with an albedo that is \<open>NaN\<close> (what
  \<open>updateParams\<close> stores for a string that is no number) absorbed and reflected are \<open>NaN\<close>.
\<close>

lemma partition_NaN_albedo:
  "d_add (absorbedSolar64 (climate_state (Fin 400) NaN (Fin 1361) (Fin 30) (Fin 15)))
     (reflected64 (climate_state (Fin 400) NaN (Fin 1361) (Fin 30) (Fin 15))) = NaN"
proof -
  have "js_mul a NaN = NaN" for a
    by (cases a) simp_all
  then show ?thesis
    by (simp add: absorbedSolar64_def reflected64_def d_add_def d_mul_def d_sub_def js_sub_def)
qed

section \<open>Properties of the chart window\<close>

lemma shift_drop: "shift xs = drop 1 xs"
  by (cases xs) simp_all

lemma update_maxPoints: "maxPoints (update s g) = maxPoints g"
  by (simp add: update_def Let_def)

lemma length_labels_pushed: "length (labels_pushed ss g) = length ss"
  by (induction ss arbitrary: g) simp_all

lemma update_data:
  assumes "maxPoints g = Fin 50"
    and "length (tempChart_labels g) = length (tempChart_data g)"
    and "length (tempChart_data g) \<le> 50"
  shows "tempChart_data (update s g) =
     drop (Suc (length (tempChart_data g)) - 50) (tempChart_data g @ [temp s])"
proof (cases "length (tempChart_data g) = 50")
  case True
  with assms show ?thesis
    by (simp add: update_def Let_def js_length_def shift_drop)
next
  case False
  with assms have "length (tempChart_data g) < 50" by simp
  with assms show ?thesis
    by (simp add: update_def Let_def js_length_def)
qed

lemma update_labels:
  assumes "maxPoints g = Fin 50" and "length (tempChart_labels g) \<le> 50"
  shows "tempChart_labels (update s g) =
     drop (Suc (length (tempChart_labels g)) - 50)
       (tempChart_labels g @ [timeLabel (update s g)])"
proof (cases "length (tempChart_labels g) = 50")
  case True
  with assms show ?thesis
    by (simp add: update_def Let_def js_length_def shift_drop)
next
  case False
  with assms have "length (tempChart_labels g) < 50" by simp
  with assms show ?thesis
    by (simp add: update_def Let_def js_length_def)
qed

text \<open>
  From any chart whose two arrays have the same length of at most 50, a run of updates
  leaves the last 50 of everything that was there or was pushed.
\<close>

lemma updates_window:
  "maxPoints g = Fin 50 \<Longrightarrow> length (tempChart_labels g) = length (tempChart_data g) \<Longrightarrow>
   length (tempChart_data g) \<le> 50 \<Longrightarrow>
   tempChart_data (updates ss g) =
     drop (length (tempChart_data g) + length ss - 50) (tempChart_data g @ map temp ss) \<and>
   tempChart_labels (updates ss g) =
     drop (length (tempChart_labels g) + length ss - 50)
       (tempChart_labels g @ labels_pushed ss g)"
proof (induction ss arbitrary: g)
  case Nil
  then show ?case by simp
next
  case (Cons s ss)
  let ?g = "update s g"
  have d: "tempChart_data ?g =
      drop (Suc (length (tempChart_data g)) - 50) (tempChart_data g @ [temp s])"
    using Cons.prems by (simp add: update_data)
  have l: "tempChart_labels ?g =
      drop (Suc (length (tempChart_labels g)) - 50) (tempChart_labels g @ [timeLabel ?g])"
    using Cons.prems by (simp add: update_labels)
  have len: "length (tempChart_labels ?g) = length (tempChart_data ?g)"
    "length (tempChart_data ?g) \<le> 50"
    using Cons.prems by (simp_all add: d l)
  have ih: "tempChart_data (updates ss ?g) =
      drop (length (tempChart_data ?g) + length ss - 50) (tempChart_data ?g @ map temp ss)"
    "tempChart_labels (updates ss ?g) =
      drop (length (tempChart_labels ?g) + length ss - 50)
        (tempChart_labels ?g @ labels_pushed ss ?g)"
    using Cons.IH [of ?g] Cons.prems len by (simp_all add: update_maxPoints)
  show ?case
  proof (cases "length (tempChart_data g) = 50")
    case True
    with Cons.prems ih d l show ?thesis
      by (simp add: drop_Suc tl_append split: list.splits)
  next
    case False
    with Cons.prems have "length (tempChart_data g) < 50" by simp
    with Cons.prems ih d l show ?thesis by simp
  qed
qed

text \<open>
  C9. Starting from the empty chart of the constructor, after every call of \<open>update\<close> the
  label array and the data array of the temperature chart hold at most 50 entries
  (\<open>maxPoints\<close>): they hold the latest 50 labels and temperatures pushed, the older ones
  having been shifted out one per call.
\<close>

theorem chart_window_bounded:
  "length (tempChart_labels (updates ss ClimateGraphs_constructor)) \<le> 50 \<and>
   length (tempChart_data (updates ss ClimateGraphs_constructor)) \<le> 50 \<and>
   tempChart_data (updates ss ClimateGraphs_constructor) =
     drop (length ss - 50) (map temp ss) \<and>
   tempChart_labels (updates ss ClimateGraphs_constructor) =
     drop (length ss - 50) (labels_pushed ss ClimateGraphs_constructor)"
  using updates_window [of ClimateGraphs_constructor ss]
  by (simp add: ClimateGraphs_constructor_def length_labels_pushed)

end
